theory Spec2Isabelle
  imports Complex_Main
begin

section \<open>Data model\<close>

text \<open>
  Public keys, blockhashes, bundle identifiers and URLs are strings, as they are on the
  wire. Instructions produced by the Solana and Drift libraries are kept as constructors
  that record the arguments the source passes to the library call that builds them.
  Lamport amounts are whole numbers; the JavaScript numbers given to the Drift builders
  are reals, and the rounding of their product is left to a parameter.
\<close>

datatype order_type = MARKET | LIMIT

datatype market_type = PERP | SPOT

datatype position_direction = LONG | SHORT

datatype instruction =
    SystemTransfer (fromPubkey: string) (toPubkey: string) (lamports: int)
  | SetComputeUnitLimit int
  | SetComputeUnitPrice int
  | DriftInitializeUserStats
  | DriftInitializeUser nat
  | DriftDeposit (deposit_amount: int) (spotMarketIndex: nat)
      (userTokenAccount: string)
      (deposit_subAccountId: nat) (reduceOnly: bool) (userInitialized: bool)
  | DriftPlacePerpOrder (orderType: order_type) (marketType: market_type)
      (order_marketIndex: nat) (direction: position_direction)
      (order_baseAssetAmount: int) (order_price: int) (order_subAccountId: nat)

text \<open>
  \<^verbatim>\<open>new VersionedTransaction(new TransactionMessage({payerKey, recentBlockhash,
  instructions}).compileToV0Message())\<close>: an unsigned transaction is its message.
\<close>

record transaction =
  payerKey :: string
  recentBlockhash :: string
  instructions :: "instruction list"

text \<open>
  Values parsed from a relay response. Only the falsiness of a value and its identity
  matter to the code; numbers are restricted to integers.
\<close>

datatype json =
    JNull
  | JBool bool
  | JNum int
  | JStr string
  | JArr "json list"
  | JObj "(string \<times> json) list"

text \<open>JavaScript truthiness, as tested by \<^verbatim>\<open>if (status.err)\<close>.\<close>

fun truthy :: "json \<Rightarrow> bool" where
  "truthy JNull = False"
| "truthy (JBool b) = b"
| "truthy (JNum n) = (n \<noteq> 0)"
| "truthy (JStr s) = (s \<noteq> [])"
| "truthy (JArr xs) = True"
| "truthy (JObj kvs) = True"

text \<open>
  The fields of a \<^verbatim>\<open>BundleStatus\<close> that the poller reads. A missing or null
  \<^verbatim>\<open>err\<close> is \<^const>\<open>JNull\<close>.
\<close>

record bundle_status =
  confirmation_status :: string
  err :: json

text \<open>
  The text of an error: a literal message, or \<^verbatim>\<open>JSON.stringify\<close> of a payload
  (the serialisation itself is not unfolded; the payload is kept).
\<close>

datatype error_text = Text string | JSON_stringify json

record JitoBundleResult =
  bundleId :: string
  success :: bool
  error :: "error_text option"

section \<open>Relay client\<close>

text \<open>
  What a JSON-RPC POST can come back with: the HTTP call rejects (\<open>NetworkError\<close> with
  the exception's message), or the envelope carries \<^verbatim>\<open>error.message\<close>, or it carries a
  result.
\<close>

datatype 'a http_reply = NetworkError string | RpcError string | RpcResult 'a

datatype rpc_params =
    EncodedTransactions "transaction list"
  | BundleIds "string list"
  | NoParams

record http_request =
  req_url :: string
  req_method :: string
  req_params :: rpc_params

text \<open>Observable actions, in program order.\<close>

datatype effect = Post http_request | Sleep int

definition AMSTERDAM_BUNDLES :: string where
  "AMSTERDAM_BUNDLES = ''https://amsterdam.mainnet.block-engine.jito.wtf/api/v1/bundles''"

definition AMSTERDAM_GET_BUNDLE_STATUSES :: string where
  "AMSTERDAM_GET_BUNDLE_STATUSES =
     ''https://amsterdam.mainnet.block-engine.jito.wtf/api/v1/getBundleStatuses''"

definition AMSTERDAM_GET_INFLIGHT_BUNDLE_STATUSES :: string where
  "AMSTERDAM_GET_INFLIGHT_BUNDLE_STATUSES =
     ''https://amsterdam.mainnet.block-engine.jito.wtf/api/v1/getInflightBundleStatuses''"

definition TOKYO_BUNDLES :: string where
  "TOKYO_BUNDLES = ''https://tokyo.mainnet.block-engine.jito.wtf/api/v1/bundles''"

definition TOKYO_GET_BUNDLE_STATUSES :: string where
  "TOKYO_GET_BUNDLE_STATUSES =
     ''https://tokyo.mainnet.block-engine.jito.wtf/api/v1/getBundleStatuses''"

text \<open>
  Each client function is given the reply its POST receives and returns the request it
  sent together with its result; \<open>Inl msg\<close> is a thrown \<^verbatim>\<open>Error(msg)\<close>.
  \<^verbatim>\<open>sendBundle\<close> posts \<^verbatim>\<open>[encodedTransactions, {encoding: 'base64'}]\<close>; the
  transactions stand for their base64 serialisations.
\<close>

definition sendBundle ::
  "transaction list \<Rightarrow> string \<Rightarrow> string http_reply \<Rightarrow> http_request \<times> (string + string)" where
  "sendBundle transactions endpoint reply =
     (\<lparr>req_url = AMSTERDAM_BUNDLES, req_method = ''sendBundle'',
       req_params = EncodedTransactions transactions\<rparr>,
      case reply of
        NetworkError msg \<Rightarrow> Inl msg
      | RpcError msg \<Rightarrow> Inl (''sendBundle failed: '' @ msg)
      | RpcResult bundle_id \<Rightarrow> Inr bundle_id)"

text \<open>
  For the two status queries the result of the envelope is \<^verbatim>\<open>data.result?.value\<close>:
  \<open>None\<close> when the result or its value is missing, and then the function returns
  \<^verbatim>\<open>[]\<close>. A slot of the list is \<open>None\<close> for \<^verbatim>\<open>null\<close>.
\<close>

definition getBundleStatuses ::
  "string list \<Rightarrow> string \<Rightarrow> bundle_status option list option http_reply
     \<Rightarrow> http_request \<times> (string + bundle_status option list)" where
  "getBundleStatuses bundleIds endpoint reply =
     (\<lparr>req_url = AMSTERDAM_GET_BUNDLE_STATUSES, req_method = ''getBundleStatuses'',
       req_params = BundleIds bundleIds\<rparr>,
      case reply of
        NetworkError msg \<Rightarrow> Inl msg
      | RpcError msg \<Rightarrow> Inl (''getBundleStatuses failed: '' @ msg)
      | RpcResult v \<Rightarrow> Inr (case v of None \<Rightarrow> [] | Some statuses \<Rightarrow> statuses))"

definition getBundleInflightStatuses ::
  "string list \<Rightarrow> string \<Rightarrow> bundle_status option list option http_reply
     \<Rightarrow> http_request \<times> (string + bundle_status option list)" where
  "getBundleInflightStatuses bundleIds endpoint reply =
     (\<lparr>req_url = AMSTERDAM_GET_INFLIGHT_BUNDLE_STATUSES,
       req_method = ''getInflightBundleStatuses'',
       req_params = BundleIds bundleIds\<rparr>,
      case reply of
        NetworkError msg \<Rightarrow> Inl msg
      | RpcError msg \<Rightarrow> Inl (''getInflightBundleStatuses failed: '' @ msg)
      | RpcResult v \<Rightarrow> Inr (case v of None \<Rightarrow> [] | Some statuses \<Rightarrow> statuses))"

section \<open>Confirmation poller\<close>

text \<open>
  One iteration of the polling loop meets the relay twice. A \<open>tick\<close> scripts what the
  relay answers on that iteration and how many milliseconds each call takes. Timers are
  exact: \<^verbatim>\<open>setTimeout(resolve, d)\<close> advances the clock by \<open>max 0 d\<close>.
\<close>

record tick =
  status_reply :: "bundle_status option list option http_reply"
  status_ms :: nat
  inflight_reply :: "bundle_status option list option http_reply"
  inflight_ms :: nat

text \<open>\<^verbatim>\<open>statuses[0]\<close>: undefined on the empty list, null in a null slot.\<close>

definition head_slot :: "bundle_status option list \<Rightarrow> bundle_status option" where
  "head_slot statuses = (case statuses of [] \<Rightarrow> None | s # _ \<Rightarrow> s)"

definition landed :: "bundle_status \<Rightarrow> bool" where
  "landed status \<longleftrightarrow>
     confirmation_status status = ''confirmed'' \<or> confirmation_status status = ''finalized''"

text \<open>
  The body of the \<^verbatim>\<open>try\<close> block. The result is the value returned from inside the loop
  (\<open>None\<close> when the iteration falls through to the wait), the clock afterwards and the
  actions performed. A throwing query leaves the block at once.
\<close>

definition poll_body ::
  "string \<Rightarrow> string \<Rightarrow> int \<Rightarrow> tick \<Rightarrow> JitoBundleResult option \<times> int \<times> effect list" where
  "poll_body bundle_id endpoint now tk =
     (let (req1, r1) = getBundleStatuses [bundle_id] endpoint (status_reply tk);
          t1 = now + int (status_ms tk)
      in case r1 of
           Inl e \<Rightarrow> (None, t1, [Post req1])
         | Inr statuses \<Rightarrow>
             (let (req2, r2) = getBundleInflightStatuses [bundle_id] endpoint (inflight_reply tk);
                  t2 = t1 + 1000 + int (inflight_ms tk)
              in case r2 of
                   Inl e \<Rightarrow> (None, t2, [Post req1, Sleep 1000, Post req2])
                 | Inr inflightStatuses \<Rightarrow>
                     (let es = [Post req1, Sleep 1000, Post req2, Sleep 1000];
                          t3 = t2 + 1000
                      in case head_slot statuses of
                           None \<Rightarrow> (None, t3, es)
                         | Some status \<Rightarrow>
                             if landed status
                             then (Some \<lparr>bundleId = bundle_id, success = True, error = None\<rparr>,
                                   t3, es)
                             else if truthy (err status)
                             then (Some \<lparr>bundleId = bundle_id, success = False,
                                          error = Some (JSON_stringify (err status))\<rparr>,
                                   t3, es)
                             else (None, t3, es))))"

definition timeout_result :: "string \<Rightarrow> JitoBundleResult" where
  "timeout_result bundle_id =
     \<lparr>bundleId = bundle_id, success = False,
      error = Some (Text ''Bundle confirmation timeout'')\<rparr>"

text \<open>
  A run of an asynchronous function: what it resolved to, the clock when it did, and its
  actions. The outcome is \<open>None\<close> when the scripted ticks ran out while the loop was
  still polling.
\<close>

record run =
  outcome :: "JitoBundleResult option"
  finished :: int
  effects :: "effect list"

definition after :: "effect list \<Rightarrow> run \<Rightarrow> run" where
  "after es r = r\<lparr>effects := es @ effects r\<rparr>"

fun poll_loop ::
  "string \<Rightarrow> string \<Rightarrow> int \<Rightarrow> int \<Rightarrow> int \<Rightarrow> int \<Rightarrow> tick list \<Rightarrow> run" where
  "poll_loop bundle_id endpoint timeoutMs pollIntervalMs startTime now [] =
     (if now - startTime < timeoutMs
      then \<lparr>outcome = None, finished = now, effects = []\<rparr>
      else \<lparr>outcome = Some (timeout_result bundle_id), finished = now, effects = []\<rparr>)"
| "poll_loop bundle_id endpoint timeoutMs pollIntervalMs startTime now (tk # rest) =
     (if now - startTime < timeoutMs
      then (case poll_body bundle_id endpoint now tk of
              (Some r, t, es) \<Rightarrow> \<lparr>outcome = Some r, finished = t, effects = es\<rparr>
            | (None, t, es) \<Rightarrow>
                after (es @ [Sleep pollIntervalMs])
                  (poll_loop bundle_id endpoint timeoutMs pollIntervalMs startTime
                     (t + max 0 pollIntervalMs) rest))
      else \<lparr>outcome = Some (timeout_result bundle_id), finished = now, effects = []\<rparr>)"

text \<open>\<^verbatim>\<open>const startTime = Date.now()\<close>, then the loop.\<close>

definition waitForBundleConfirmation ::
  "string \<Rightarrow> string \<Rightarrow> int \<Rightarrow> int \<Rightarrow> int \<Rightarrow> tick list \<Rightarrow> run" where
  "waitForBundleConfirmation bundle_id endpoint timeoutMs pollIntervalMs now ticks =
     poll_loop bundle_id endpoint timeoutMs pollIntervalMs now now ticks"

definition DEFAULT_POLL_INTERVAL_MS :: int where
  "DEFAULT_POLL_INTERVAL_MS = 2000"

text \<open>
  \<^verbatim>\<open>submitAndConfirmBundle\<close>: the submission takes \<open>send_ms\<close> milliseconds and receives
  \<open>send_reply\<close>; the poller is called with its default poll interval.
\<close>

definition submitAndConfirmBundle ::
  "transaction list \<Rightarrow> int \<Rightarrow> int \<Rightarrow> string http_reply \<Rightarrow> nat \<Rightarrow> tick list \<Rightarrow> run" where
  "submitAndConfirmBundle transactions timeoutMs now send_reply send_ms ticks =
     (let (req, r) = sendBundle transactions TOKYO_BUNDLES send_reply;
          t = now + int send_ms
      in case r of
           Inl msg \<Rightarrow>
             \<lparr>outcome = Some \<lparr>bundleId = [], success = False, error = Some (Text msg)\<rparr>,
              finished = t, effects = [Post req]\<rparr>
         | Inr bundle_id \<Rightarrow>
             after [Post req]
               (waitForBundleConfirmation bundle_id TOKYO_GET_BUNDLE_STATUSES timeoutMs
                  DEFAULT_POLL_INTERVAL_MS t ticks))"

section \<open>Tip transaction builder\<close>








section \<open>Drift transaction builders\<close>

datatype drift_error =
    WalletNotConnected
  | MarketNotFound string
  | OracleDataUnavailable nat
  | AssertionFailed
  | SdkRejected string
  | SubscribeFailed string
  | BlockhashFailed string

text \<open>
  What the builders take from outside their own file, as parameters: the USDC mint and
  the USDC spot market index of \<^verbatim>\<open>../types\<close>, the SDK's table of perpetual markets
  (symbol, market index), \<^verbatim>\<open>getAssociatedTokenAddress\<close> of the token library, which
  can reject, and the product of two JavaScript numbers as the machine rounds it.
\<close>

record module_consts =
  TOKEN_ADDRESS_USDC :: string
  DRIFT_SPOT_MARKETS_USDC :: nat
  MainnetPerpMarkets :: "(string \<times> nat) list"
  getAssociatedTokenAddress :: "string \<Rightarrow> string \<Rightarrow> drift_error + string"
  times :: "real \<Rightarrow> real \<Rightarrow> real"

definition BASE_PRECISION :: int where
  "BASE_PRECISION = 10 ^ 9"

text \<open>
  \<^verbatim>\<open>new BN(number)\<close>: the fraction is cut off towards zero, and a magnitude of
  \<open>2 ^ 53\<close> or more fails the constructor's assertion.
\<close>

definition new_BN :: "real \<Rightarrow> drift_error + int" where
  "new_BN x =
     (if \<bar>x\<bar> < 2 ^ 53
      then Inr (if x < 0 then - \<lfloor>- x\<rfloor> else \<lfloor>x\<rfloor>)
      else Inl AssertionFailed)"

record order_params =
  op_orderType :: order_type
  op_marketType :: market_type
  op_marketIndex :: nat
  op_direction :: position_direction
  op_baseAssetAmount :: int
  op_price :: int

text \<open>
  A subscribed \<^verbatim>\<open>DriftClient\<close>, by the methods the builders call: whether
  \<^verbatim>\<open>getUser\<close> finds the sub-account (it throws otherwise), the oracle price of a
  perpetual market (\<open>None\<close> when the data or its price is missing), and the three
  asynchronous instruction builders, each of which can reject.
\<close>

record drift_client =
  wallet_publicKey :: string
  has_user :: "nat \<Rightarrow> bool"
  getInitializeUserAccountIxs :: "nat \<Rightarrow> drift_error + instruction list"
  getDepositInstruction ::
    "int \<Rightarrow> nat \<Rightarrow> string \<Rightarrow> nat \<Rightarrow> bool \<Rightarrow> bool \<Rightarrow> drift_error + instruction"
  oraclePrice :: "nat \<Rightarrow> int option"
  getPlacePerpOrderIx :: "order_params \<Rightarrow> nat \<Rightarrow> drift_error + instruction"

text \<open>\<^verbatim>\<open>MainnetPerpMarkets.find((m) => m.symbol === marketName)\<close>: the first match.\<close>

definition getPerpMarketIndex :: "module_consts \<Rightarrow> string \<Rightarrow> drift_error + nat" where
  "getPerpMarketIndex k marketName =
     (case map_of (MainnetPerpMarkets k) marketName of
        None \<Rightarrow> Inl (MarketNotFound marketName)
      | Some marketIndex \<Rightarrow> Inr marketIndex)"

text \<open>Division of \<^verbatim>\<open>BN\<close> integers truncates towards zero.\<close>

definition bn_div :: "int \<Rightarrow> int \<Rightarrow> int" where
  "bn_div a b = sgn a * sgn b * (\<bar>a\<bar> div \<bar>b\<bar>)"

text \<open>
  The check for the user account that opens both builders: \<^verbatim>\<open>userInitialized\<close> and the
  instructions pushed so far.
\<close>

definition init_instructions ::
  "drift_client \<Rightarrow> nat \<Rightarrow> drift_error + bool \<times> instruction list" where
  "init_instructions driftClient subAccountId =
     (if has_user driftClient subAccountId then Inr (True, [])
      else case getInitializeUserAccountIxs driftClient subAccountId of
             Inl e \<Rightarrow> Inl e
           | Inr initIxs \<Rightarrow> Inr (False, initIxs))"

text \<open>
  The deposit instruction as both builders obtain it: \<^verbatim>\<open>new BN(amount * 1e6)\<close>, the
  user's USDC token account, then \<^verbatim>\<open>getDepositInstruction\<close> with
  \<^verbatim>\<open>reduceOnly = false\<close>.
\<close>

definition buildDepositInstruction ::
  "module_consts \<Rightarrow> drift_client \<Rightarrow> real \<Rightarrow> nat \<Rightarrow> bool \<Rightarrow> drift_error + instruction" where
  "buildDepositInstruction k driftClient usdcAmount subAccountId userInit =
     (case new_BN (times k usdcAmount 1000000) of
        Inl e \<Rightarrow> Inl e
      | Inr amount \<Rightarrow>
          (case getAssociatedTokenAddress k (TOKEN_ADDRESS_USDC k)
                  (wallet_publicKey driftClient) of
             Inl e \<Rightarrow> Inl e
           | Inr tokenAccount \<Rightarrow>
               getDepositInstruction driftClient amount (DRIFT_SPOT_MARKETS_USDC k)
                 tokenAccount subAccountId False userInit))"

text \<open>
  \<^verbatim>\<open>depositAmount\<close> is optional; \<^verbatim>\<open>depositAmount && depositAmount > 0\<close> holds for a
  supplied positive number, and then the deposit is obtained by the same three steps as
  in \<^verbatim>\<open>buildDepositInstruction\<close>. The instruction list grows by \<^verbatim>\<open>push\<close> in program
  order. \<^verbatim>\<open>new BN(baseAssetAmount)\<close> is taken before the multiplication.
\<close>

definition buildDriftShortInstructions ::
  "module_consts \<Rightarrow> drift_client \<Rightarrow> nat \<Rightarrow> real \<Rightarrow> real option \<Rightarrow> nat
     \<Rightarrow> drift_error + instruction list" where
  "buildDriftShortInstructions k driftClient marketIndex baseAssetAmount depositAmount
       subAccountId =
     (case init_instructions driftClient subAccountId of
        Inl e \<Rightarrow> Inl e
      | Inr (userInit, ixs0) \<Rightarrow>
          (case (case depositAmount of
                   None \<Rightarrow> Inr ixs0
                 | Some d \<Rightarrow>
                     if d \<noteq> 0 \<and> d > 0
                     then (case buildDepositInstruction k driftClient d subAccountId
                                  (userInit \<or> length ixs0 > 0) of
                             Inl e \<Rightarrow> Inl e
                           | Inr depositIx \<Rightarrow> Inr (ixs0 @ [depositIx]))
                     else Inr ixs0) of
             Inl e \<Rightarrow> Inl e
           | Inr ixs1 \<Rightarrow>
               (case new_BN baseAssetAmount of
                  Inl e \<Rightarrow> Inl e
                | Inr base \<Rightarrow>
                    (case oraclePrice driftClient marketIndex of
                       None \<Rightarrow> Inl (OracleDataUnavailable marketIndex)
                     | Some price \<Rightarrow>
                         (case getPlacePerpOrderIx driftClient
                                 \<lparr>op_orderType = MARKET, op_marketType = PERP,
                                  op_marketIndex = marketIndex, op_direction = SHORT,
                                  op_baseAssetAmount = base * BASE_PRECISION,
                                  op_price = bn_div (price * 95) 100\<rparr>
                                 subAccountId of
                            Inl e \<Rightarrow> Inl e
                          | Inr shortIx \<Rightarrow> Inr (ixs1 @ [shortIx]))))))"

text \<open>
  \<open>blockhash_reply\<close> is the answer of \<^verbatim>\<open>connection.getLatestBlockhash\<close>.
  \<^verbatim>\<open>depositAmount ? 800_000 : 600_000\<close> tests truthiness: absent or zero is falsy.
\<close>

definition buildDriftShortTransaction ::
  "module_consts \<Rightarrow> drift_error + string \<Rightarrow> string \<Rightarrow> drift_client \<Rightarrow> string \<Rightarrow> real
     \<Rightarrow> real option \<Rightarrow> nat \<Rightarrow> drift_error + transaction" where
  "buildDriftShortTransaction k blockhash_reply userPublicKey driftClient marketName
       baseAssetAmount depositAmount subAccountId =
     (case getPerpMarketIndex k marketName of
        Inl e \<Rightarrow> Inl e
      | Inr marketIndex \<Rightarrow>
          (case buildDriftShortInstructions k driftClient marketIndex baseAssetAmount
                  depositAmount subAccountId of
             Inl e \<Rightarrow> Inl e
           | Inr ixs \<Rightarrow>
               (let computeUnits =
                      (if depositAmount \<noteq> None \<and> depositAmount \<noteq> Some 0
                       then 800000 else 600000)
                in case blockhash_reply of
                     Inl e \<Rightarrow> Inl e
                   | Inr blockhash \<Rightarrow>
                       Inr \<lparr>payerKey = userPublicKey, recentBlockhash = blockhash,
                            instructions =
                              [SetComputeUnitLimit computeUnits, SetComputeUnitPrice 1000]
                              @ ixs\<rparr>)))"


section \<open>The \<^verbatim>\<open>useDriftShort\<close> hook\<close>















section \<open>Predicates of the statements\<close>

text \<open>On this tick the status query or the inflight-status query throws.\<close>

definition query_throws :: "string \<Rightarrow> string \<Rightarrow> tick \<Rightarrow> bool" where
  "query_throws bundle_id endpoint tk \<longleftrightarrow>
     isl (snd (getBundleStatuses [bundle_id] endpoint (status_reply tk))) \<or>
     isl (snd (getBundleInflightStatuses [bundle_id] endpoint (inflight_reply tk)))"

text \<open>A tick on which both queries answer at once with no status for the handle.\<close>

definition quiet_tick :: tick where
  "quiet_tick =
     \<lparr>status_reply = RpcResult None, status_ms = 0,
      inflight_reply = RpcResult None, inflight_ms = 0\<rparr>"

text \<open>A tick on which the status query fails on the network.\<close>

definition broken_tick :: tick where
  "broken_tick =
     \<lparr>status_reply = NetworkError ''Network Error'', status_ms = 0,
      inflight_reply = RpcResult None, inflight_ms = 0\<rparr>"

text \<open>
  A tick on which the relay reports the bundle as confirmed, with the error field that
  the relay sets on a bundle that went through.
\<close>

definition landed_with_error_tick :: tick where
  "landed_with_error_tick =
     \<lparr>status_reply =
        RpcResult (Some [Some \<lparr>confirmation_status = ''confirmed'',
                                err = JObj [(''Ok'', JNull)]\<rparr>]),
      status_ms = 0, inflight_reply = RpcResult None, inflight_ms = 0\<rparr>"

text \<open>A tick on which the relay reports an on-chain error for a bundle not confirmed.\<close>

definition failed_tick :: tick where
  "failed_tick =
     \<lparr>status_reply =
        RpcResult (Some [Some \<lparr>confirmation_status = ''processed'',
                                err = JObj [(''Err'', JStr ''InstructionError'')]\<rparr>]),
      status_ms = 0, inflight_reply = RpcResult None, inflight_ms = 0\<rparr>"



text \<open>
  Sample values: the outside parameters with exact products, a client without a user
  account whose instruction builders all answer, and two calls that meet no failure of
  their surroundings, one of them with an \<^verbatim>\<open>unsubscribe()\<close> that rejects in the
  \<^verbatim>\<open>catch\<close> block.
\<close>

definition demo_consts :: module_consts where
  "demo_consts =
     \<lparr>TOKEN_ADDRESS_USDC = ''USDC-mint'', DRIFT_SPOT_MARKETS_USDC = 0,
      MainnetPerpMarkets = [(''SOL-PERP'', 0), (''JUP-PERP'', 24)],
      getAssociatedTokenAddress = (\<lambda>mint owner. Inr (mint @ ''/'' @ owner)),
      times = (\<lambda>x y. x * y)\<rparr>"

definition new_user_data :: drift_client where
  "new_user_data =
     \<lparr>wallet_publicKey = [], has_user = (\<lambda>_. False),
      getInitializeUserAccountIxs =
        (\<lambda>sub. Inr [DriftInitializeUserStats, DriftInitializeUser sub]),
      getDepositInstruction =
        (\<lambda>amount market account sub ro ui. Inr (DriftDeposit amount market account sub ro ui)),
      oraclePrice = (\<lambda>_. Some 1000000),
      getPlacePerpOrderIx =
        (\<lambda>p sub. Inr (DriftPlacePerpOrder (op_orderType p) (op_marketType p)
                        (op_marketIndex p) (op_direction p) (op_baseAssetAmount p)
                        (op_price p) sub))\<rparr>"



definition demo_short_tx :: transaction where
  "demo_short_tx =
     \<lparr>payerKey = ''me'', recentBlockhash = ''hash'',
      instructions =
        [SetComputeUnitLimit 800000, SetComputeUnitPrice 1000,
         DriftInitializeUserStats, DriftInitializeUser 0,
         DriftDeposit 50000000 0 ''USDC-mint/me'' 0 False True,
         DriftPlacePerpOrder MARKET PERP 24 SHORT 10000000000 950000 0]\<rparr>"

section \<open>Properties of the poller\<close>

subsection \<open>The clock and the run record\<close>

lemma poll_body_clock:
  "poll_body bundle_id endpoint now tk = (r, t, es) \<Longrightarrow>
     now \<le> t \<and> t \<le> now + int (status_ms tk) + int (inflight_ms tk) + 2000"
  by (auto simp: poll_body_def Let_def getBundleStatuses_def getBundleInflightStatuses_def
      split: sum.splits option.splits if_splits prod.splits http_reply.splits)

lemma finished_after [simp]: "finished (after es r) = finished r"
  by (simp add: after_def)

lemma outcome_after [simp]: "outcome (after es r) = outcome r"
  by (simp add: after_def)

lemma effects_after [simp]: "effects (after es r) = es @ effects r"
  by (simp add: after_def)

text \<open>
  With a positive poll interval every iteration moves the clock by at least that
  interval, so a script of enough ticks sees the poller return.
\<close>

lemma poll_loop_returns:
  assumes "0 < pollIntervalMs"
    and "timeoutMs - (now - startTime) \<le> int (length ticks) * pollIntervalMs"
  shows "outcome (poll_loop bundle_id endpoint timeoutMs pollIntervalMs startTime now ticks)
           \<noteq> None"
  using assms
proof (induction ticks arbitrary: now)
  case Nil
  then show ?case by simp
next
  case (Cons tk rest)
  show ?case
  proof (cases "now - startTime < timeoutMs")
    case False
    then show ?thesis by simp
  next
    case True
    obtain r t es where pb: "poll_body bundle_id endpoint now tk = (r, t, es)"
      by (cases "poll_body bundle_id endpoint now tk") auto
    from poll_body_clock [OF pb] have t: "now \<le> t" by simp
    show ?thesis
    proof (cases r)
      case (Some res)
      with pb True show ?thesis by simp
    next
      case None
      have "timeoutMs - (t + max 0 pollIntervalMs - startTime)
              \<le> int (length rest) * pollIntervalMs"
        using Cons.prems t by (simp add: algebra_simps)
      from Cons.IH [OF Cons.prems(1) this] None pb True show ?thesis by simp
    qed
  qed
qed

lemma poll_loop_elapsed:
  assumes "\<forall>tk\<in>set ticks. int (status_ms tk) + int (inflight_ms tk) \<le> L"
  shows "finished (poll_loop bundle_id endpoint timeoutMs pollIntervalMs startTime now ticks)
           - startTime
           \<le> max (now - startTime) (timeoutMs - 1 + (L + 2000 + max 0 pollIntervalMs))"
  using assms
proof (induction ticks arbitrary: now)
  case Nil
  then show ?case by simp
next
  case (Cons tk rest)
  show ?case
  proof (cases "now - startTime < timeoutMs")
    case False
    then show ?thesis by simp
  next
    case True
    obtain r t es where pb: "poll_body bundle_id endpoint now tk = (r, t, es)"
      by (cases "poll_body bundle_id endpoint now tk") auto
    from poll_body_clock [OF pb] Cons.prems
    have t: "now \<le> t" "t \<le> now + L + 2000" by auto
    show ?thesis
    proof (cases r)
      case (Some res)
      with pb True t show ?thesis by simp
    next
      case None
      have "finished (poll_loop bundle_id endpoint timeoutMs pollIntervalMs startTime
              (t + max 0 pollIntervalMs) rest) - startTime
            \<le> max (t + max 0 pollIntervalMs - startTime)
                  (timeoutMs - 1 + (L + 2000 + max 0 pollIntervalMs))"
        using Cons.IH [of "t + max 0 pollIntervalMs"] Cons.prems by simp
      with None pb True t show ?thesis by simp
    qed
  qed
qed

lemma poll_body_throws:
  assumes "query_throws bundle_id endpoint tk"
  shows "fst (poll_body bundle_id endpoint now tk) = None"
  using assms
  by (auto simp: query_throws_def poll_body_def Let_def isl_def split: prod.splits sum.splits)

lemma poll_loop_throws:
  assumes "\<forall>tk\<in>set ticks. query_throws bundle_id endpoint tk"
  shows "outcome (poll_loop bundle_id endpoint timeoutMs pollIntervalMs startTime now ticks)
           \<in> {None, Some (timeout_result bundle_id)}"
  using assms
proof (induction ticks arbitrary: now)
  case Nil
  then show ?case by simp
next
  case (Cons tk rest)
  obtain r t es where pb: "poll_body bundle_id endpoint now tk = (r, t, es)"
    by (cases "poll_body bundle_id endpoint now tk") auto
  from Cons.prems have "query_throws bundle_id endpoint tk" by simp
  from poll_body_throws [OF this, of now] pb have r: "r = None" by simp
  from Cons.IH [of "t + max 0 pollIntervalMs"] Cons.prems
  have "outcome (poll_loop bundle_id endpoint timeoutMs pollIntervalMs startTime
           (t + max 0 pollIntervalMs) rest) \<in> {None, Some (timeout_result bundle_id)}"
    by simp
  with pb r show ?case by simp
qed

subsection \<open>Claims about the poller\<close>

text \<open>
  C10. A timeout budget that is zero or negative: the loop condition fails at once, no
  status or inflight-status query is made, and the timeout result for the handle is
  returned immediately.
\<close>

theorem nonpositive_budget_times_out_at_once:
  assumes "timeoutMs \<le> 0"
  shows "waitForBundleConfirmation bundle_id endpoint timeoutMs pollIntervalMs now ticks =
           \<lparr>outcome = Some \<lparr>bundleId = bundle_id, success = False,
                             error = Some (Text ''Bundle confirmation timeout'')\<rparr>,
            finished = now, effects = []\<rparr>"
  using assms by (cases ticks) (simp_all add: waitForBundleConfirmation_def timeout_result_def)

theorem nonpositive_budget_times_out_at_once_witness:
  "(0::int) \<le> 0 \<and>
   waitForBundleConfirmation ''b1'' TOKYO_GET_BUNDLE_STATUSES 0 2000 5
       [\<lparr>status_reply = RpcResult None, status_ms = 3,
         inflight_reply = RpcResult None, inflight_ms = 4\<rparr>] =
     \<lparr>outcome = Some \<lparr>bundleId = ''b1'', success = False,
                       error = Some (Text ''Bundle confirmation timeout'')\<rparr>,
      finished = 5, effects = []\<rparr>"
  using nonpositive_budget_times_out_at_once [of 0 "''b1''" TOKYO_GET_BUNDLE_STATUSES 2000 5]
  by simp

text \<open>
  C5. On a tick where the status query or the inflight-status query throws, the loop
  body yields no result: nothing is returned and nothing is thrown to the caller, and the
  loop goes on to its wait and then decides as it does on the remaining ticks. When
  every tick fails in this way the only outcome the poller can produce is the timeout
  result, and it does produce it once the budget is used up.
\<close>

theorem failed_queries_are_swallowed:
  "(query_throws bundle_id endpoint tk \<and> t - startTime < timeoutMs \<longrightarrow>
      fst (poll_body bundle_id endpoint t tk) = None \<and>
      outcome (poll_loop bundle_id endpoint timeoutMs pollIntervalMs startTime t (tk # rest))
        = outcome (poll_loop bundle_id endpoint timeoutMs pollIntervalMs startTime
                     (fst (snd (poll_body bundle_id endpoint t tk)) + max 0 pollIntervalMs)
                     rest)) \<and>
   ((\<forall>tk\<in>set ticks. query_throws bundle_id endpoint tk) \<longrightarrow>
      outcome (waitForBundleConfirmation bundle_id endpoint timeoutMs pollIntervalMs now ticks)
        \<in> {None, Some (timeout_result bundle_id)} \<and>
      (0 < pollIntervalMs \<and> timeoutMs \<le> int (length ticks) * pollIntervalMs \<longrightarrow>
         outcome (waitForBundleConfirmation bundle_id endpoint timeoutMs pollIntervalMs now
                    ticks)
           = Some (timeout_result bundle_id)))"
proof (intro conjI impI)
  assume a: "query_throws bundle_id endpoint tk \<and> t - startTime < timeoutMs"
  then show none: "fst (poll_body bundle_id endpoint t tk) = None"
    by (simp add: poll_body_throws)
  obtain r t' es where pb: "poll_body bundle_id endpoint t tk = (r, t', es)"
    by (cases "poll_body bundle_id endpoint t tk") auto
  with none have "r = None" by simp
  with pb a
  show "outcome (poll_loop bundle_id endpoint timeoutMs pollIntervalMs startTime t (tk # rest))
        = outcome (poll_loop bundle_id endpoint timeoutMs pollIntervalMs startTime
                     (fst (snd (poll_body bundle_id endpoint t tk)) + max 0 pollIntervalMs)
                     rest)"
    by simp
next
  let ?W = "waitForBundleConfirmation bundle_id endpoint timeoutMs pollIntervalMs now ticks"
  assume all: "\<forall>tk\<in>set ticks. query_throws bundle_id endpoint tk"
  show only: "outcome ?W \<in> {None, Some (timeout_result bundle_id)}"
    unfolding waitForBundleConfirmation_def by (rule poll_loop_throws [OF all])
  assume "0 < pollIntervalMs \<and> timeoutMs \<le> int (length ticks) * pollIntervalMs"
  then have "outcome (poll_loop bundle_id endpoint timeoutMs pollIntervalMs now now ticks)
               \<noteq> None"
    by (intro poll_loop_returns) simp_all
  with only show "outcome ?W = Some (timeout_result bundle_id)"
    by (simp add: waitForBundleConfirmation_def)
qed

theorem failed_queries_are_swallowed_witness:
  "query_throws ''b1'' TOKYO_GET_BUNDLE_STATUSES broken_tick \<and>
   fst (poll_body ''b1'' TOKYO_GET_BUNDLE_STATUSES 0 broken_tick) = None \<and>
   outcome (waitForBundleConfirmation ''b1'' TOKYO_GET_BUNDLE_STATUSES 3000 2000 0
              [broken_tick, broken_tick])
     = Some (timeout_result ''b1'')"
proof -
  have h: "query_throws ''b1'' TOKYO_GET_BUNDLE_STATUSES broken_tick"
    by (simp add: query_throws_def broken_tick_def getBundleStatuses_def)
  from failed_queries_are_swallowed
         [of "''b1''" TOKYO_GET_BUNDLE_STATUSES broken_tick 0 0 3000 2000 "[]"
             "[broken_tick, broken_tick]" 0] h
  show ?thesis
    by simp
qed

text \<open>
  C4, as amended. The budget is read only at the top of the loop, and an iteration that
  has begun runs to its end: two queries, two fixed waits of 1000 ms and one poll
  interval. With \<open>L\<close> a bound on the time the two queries of a tick take together, the
  time from the start to the return, whatever the outcome, is zero for a budget that is
  not positive and otherwise less than the budget plus \<open>L + 2000\<close> plus one poll interval.
  With a positive poll interval that a timer can hold (at most \<open>2147483647\<close> ms) and
  enough scripted ticks the poller does return.
\<close>

theorem elapsed_within_one_iteration_of_budget:
  assumes latency: "\<forall>tk\<in>set ticks. int (status_ms tk) + int (inflight_ms tk) \<le> L"
    and "0 \<le> L"
  shows "(timeoutMs \<le> 0 \<longrightarrow>
            finished (waitForBundleConfirmation bundle_id endpoint timeoutMs pollIntervalMs
                        now ticks) - now = 0) \<and>
         (0 < timeoutMs \<longrightarrow>
            finished (waitForBundleConfirmation bundle_id endpoint timeoutMs pollIntervalMs
                        now ticks) - now
              < timeoutMs + (L + 2000 + max 0 pollIntervalMs)) \<and>
         (0 < pollIntervalMs \<and> pollIntervalMs \<le> 2147483647 \<and>
          timeoutMs \<le> int (length ticks) * pollIntervalMs \<longrightarrow>
            outcome (waitForBundleConfirmation bundle_id endpoint timeoutMs pollIntervalMs
                       now ticks) \<noteq> None)"
proof (intro conjI impI)
  let ?W = "waitForBundleConfirmation bundle_id endpoint timeoutMs pollIntervalMs now ticks"
  have bound: "finished ?W - now
                 \<le> max 0 (timeoutMs - 1 + (L + 2000 + max 0 pollIntervalMs))"
    using poll_loop_elapsed [OF latency, of bundle_id endpoint timeoutMs pollIntervalMs now now]
    by (simp add: waitForBundleConfirmation_def)
  {
    assume "timeoutMs \<le> 0"
    then show "finished ?W - now = 0"
      by (cases ticks) (simp_all add: waitForBundleConfirmation_def)
  }
  {
    assume "0 < timeoutMs"
    with bound \<open>0 \<le> L\<close>
    show "finished ?W - now < timeoutMs + (L + 2000 + max 0 pollIntervalMs)"
      by simp
  }
  {
    assume "0 < pollIntervalMs \<and> pollIntervalMs \<le> 2147483647 \<and>
            timeoutMs \<le> int (length ticks) * pollIntervalMs"
    then show "outcome ?W \<noteq> None"
      unfolding waitForBundleConfirmation_def
      by (intro poll_loop_returns) simp_all
  }
qed

theorem elapsed_within_one_iteration_of_budget_witness:
  "int (status_ms quiet_tick) + int (inflight_ms quiet_tick) \<le> 0 \<and>
   finished (waitForBundleConfirmation ''b1'' TOKYO_GET_BUNDLE_STATUSES 0 2000 0
               [quiet_tick]) - 0 = 0 \<and>
   finished (waitForBundleConfirmation ''b1'' TOKYO_GET_BUNDLE_STATUSES 1000 2000 0
               [quiet_tick]) - 0
     < 1000 + (0 + 2000 + max 0 2000) \<and>
   outcome (waitForBundleConfirmation ''b1'' TOKYO_GET_BUNDLE_STATUSES 1000 2000 0
              [quiet_tick]) \<noteq> None"
proof -
  have h: "\<forall>tk\<in>set [quiet_tick]. int (status_ms tk) + int (inflight_ms tk) \<le> 0"
    by (simp add: quiet_tick_def)
  have z: "(0::int) \<le> 0" by simp
  from elapsed_within_one_iteration_of_budget
         [OF h z, of 0 "''b1''" TOKYO_GET_BUNDLE_STATUSES 2000 0]
       elapsed_within_one_iteration_of_budget
         [OF h z, of 1000 "''b1''" TOKYO_GET_BUNDLE_STATUSES 2000 0] h
  show ?thesis by simp
qed

text \<open>
  C4 as stated fails. Budget 1000 ms, poll interval 2000 ms, a relay that answers at once
  with no status: the single iteration takes 4000 ms, and the poller returns the timeout
  result 4000 ms after its start, which is more than budget plus poll interval.
\<close>

theorem budget_overrun_exceeds_poll_interval:
  "outcome (waitForBundleConfirmation ''b1'' TOKYO_GET_BUNDLE_STATUSES 1000 2000 0
              [quiet_tick]) = Some (timeout_result ''b1'') \<and>
   finished (waitForBundleConfirmation ''b1'' TOKYO_GET_BUNDLE_STATUSES 1000 2000 0
               [quiet_tick]) - 0 = 4000 \<and>
   \<not> finished (waitForBundleConfirmation ''b1'' TOKYO_GET_BUNDLE_STATUSES 1000 2000 0
                 [quiet_tick]) - 0 \<le> 1000 + 2000"
  by (simp add: waitForBundleConfirmation_def quiet_tick_def poll_body_def
      getBundleStatuses_def getBundleInflightStatuses_def head_slot_def)

text \<open>
  C1, as amended. On a tick that is entered within the budget and on which both queries
  answer, the first slot of the status list decides: a record whose confirmation level is
  confirmed or finalized ends the poller with the success result, whatever its error
  field holds; a record of another level whose error field is truthy (not null, false, 0
  or the empty string) ends it with the failure result that carries the serialised
  error; an absent or null slot, and a record with neither, leave the loop to wait one
  poll interval and go on with the next tick.
\<close>

theorem tick_outcome_by_status:
  assumes budget: "now - startTime < timeoutMs"
    and st: "snd (getBundleStatuses [bundle_id] endpoint (status_reply tk)) = Inr statuses"
    and infl: "snd (getBundleInflightStatuses [bundle_id] endpoint (inflight_reply tk))
                 = Inr inflightStatuses"
  shows "(\<forall>status. head_slot statuses = Some status \<and> landed status \<longrightarrow>
            outcome (poll_loop bundle_id endpoint timeoutMs pollIntervalMs startTime now
                       (tk # rest))
              = Some \<lparr>bundleId = bundle_id, success = True, error = None\<rparr>) \<and>
         (\<forall>status. head_slot statuses = Some status \<and> \<not> landed status \<and> truthy (err status)
            \<longrightarrow>
            outcome (poll_loop bundle_id endpoint timeoutMs pollIntervalMs startTime now
                       (tk # rest))
              = Some \<lparr>bundleId = bundle_id, success = False,
                      error = Some (JSON_stringify (err status))\<rparr>) \<and>
         (head_slot statuses = None \<or>
            (\<exists>status. head_slot statuses = Some status \<and> \<not> landed status \<and>
                        \<not> truthy (err status)) \<longrightarrow>
            poll_loop bundle_id endpoint timeoutMs pollIntervalMs startTime now (tk # rest)
              = after [Post (fst (getBundleStatuses [bundle_id] endpoint (status_reply tk))),
                       Sleep 1000,
                       Post (fst (getBundleInflightStatuses [bundle_id] endpoint
                                    (inflight_reply tk))),
                       Sleep 1000, Sleep pollIntervalMs]
                  (poll_loop bundle_id endpoint timeoutMs pollIntervalMs startTime
                     (now + int (status_ms tk) + 1000 + int (inflight_ms tk) + 1000
                        + max 0 pollIntervalMs) rest))"
  using assms
  by (auto simp: poll_body_def Let_def split: prod.splits)

theorem tick_outcome_by_status_witness:
  "outcome (poll_loop ''b1'' TOKYO_GET_BUNDLE_STATUSES 60000 2000 0 0 [landed_with_error_tick])
     = Some \<lparr>bundleId = ''b1'', success = True, error = None\<rparr> \<and>
   outcome (poll_loop ''b1'' TOKYO_GET_BUNDLE_STATUSES 60000 2000 0 0 [failed_tick])
     = Some \<lparr>bundleId = ''b1'', success = False,
             error = Some (JSON_stringify (JObj [(''Err'', JStr ''InstructionError'')]))\<rparr> \<and>
   outcome (poll_loop ''b1'' TOKYO_GET_BUNDLE_STATUSES 60000 2000 0 0 [quiet_tick]) = None \<and>
   finished (poll_loop ''b1'' TOKYO_GET_BUNDLE_STATUSES 60000 2000 0 0 [quiet_tick]) = 4000"
proof -
  have b: "(0::int) - 0 < 60000" by simp
  have i: "\<And>tk. inflight_reply tk = RpcResult None \<Longrightarrow>
             snd (getBundleInflightStatuses [''b1''] TOKYO_GET_BUNDLE_STATUSES
                    (inflight_reply tk)) = Inr []"
    by (simp add: getBundleInflightStatuses_def)
  have s1: "snd (getBundleStatuses [''b1''] TOKYO_GET_BUNDLE_STATUSES
                   (status_reply landed_with_error_tick))
              = Inr [Some \<lparr>confirmation_status = ''confirmed'',
                           err = JObj [(''Ok'', JNull)]\<rparr>]"
    by (simp add: getBundleStatuses_def landed_with_error_tick_def)
  have s2: "snd (getBundleStatuses [''b1''] TOKYO_GET_BUNDLE_STATUSES
                   (status_reply failed_tick))
              = Inr [Some \<lparr>confirmation_status = ''processed'',
                           err = JObj [(''Err'', JStr ''InstructionError'')]\<rparr>]"
    by (simp add: getBundleStatuses_def failed_tick_def)
  have s3: "snd (getBundleStatuses [''b1''] TOKYO_GET_BUNDLE_STATUSES
                   (status_reply quiet_tick)) = Inr []"
    by (simp add: getBundleStatuses_def quiet_tick_def)
  have i1: "inflight_reply landed_with_error_tick = RpcResult None"
    by (simp add: landed_with_error_tick_def)
  have i2: "inflight_reply failed_tick = RpcResult None"
    by (simp add: failed_tick_def)
  have i3: "inflight_reply quiet_tick = RpcResult None"
    by (simp add: quiet_tick_def)
  have ms: "status_ms quiet_tick = 0" "inflight_ms quiet_tick = 0"
    by (simp_all add: quiet_tick_def)
  from tick_outcome_by_status [OF b s1 i [OF i1], of 2000 "[]"]
       tick_outcome_by_status [OF b s2 i [OF i2], of 2000 "[]"]
       tick_outcome_by_status [OF b s3 i [OF i3], of 2000 "[]"]
  show ?thesis
    by (simp add: head_slot_def landed_def ms)
qed

text \<open>
  C1 as stated fails for a record that meets both conditions: its error field is not
  null and its level is confirmed. The poller returns success, not a failure that
  carries the error.
\<close>

theorem landed_record_with_error_is_success:
  "err \<lparr>confirmation_status = ''confirmed'', err = JObj [(''Ok'', JNull)]\<rparr> \<noteq> JNull \<and>
   outcome (waitForBundleConfirmation ''b1'' TOKYO_GET_BUNDLE_STATUSES 60000 2000 0
              [landed_with_error_tick])
     = Some \<lparr>bundleId = ''b1'', success = True, error = None\<rparr>"
  by (simp add: waitForBundleConfirmation_def landed_with_error_tick_def poll_body_def
      getBundleStatuses_def getBundleInflightStatuses_def head_slot_def landed_def)

section \<open>Properties of the relay client\<close>

text \<open>
  C2. When \<^verbatim>\<open>sendBundle\<close> throws, \<^verbatim>\<open>submitAndConfirmBundle\<close> returns the failure
  result with an empty bundle id and the thrown message, which for an error envelope is
  the relay's message behind the prefix of \<^verbatim>\<open>sendBundle\<close>. The only request of the
  call is the submission: the poller is not entered and no status is queried, whatever
  the relay would have answered.
\<close>

theorem failed_submission_skips_confirmation:
  assumes "snd (sendBundle transactions TOKYO_BUNDLES send_reply) = Inl msg"
  shows "submitAndConfirmBundle transactions timeoutMs now send_reply send_ms ticks =
           \<lparr>outcome = Some \<lparr>bundleId = [], success = False, error = Some (Text msg)\<rparr>,
            finished = now + int send_ms,
            effects = [Post (fst (sendBundle transactions TOKYO_BUNDLES send_reply))]\<rparr> \<and>
         req_method (fst (sendBundle transactions TOKYO_BUNDLES send_reply)) = ''sendBundle'' \<and>
         (\<forall>m. send_reply = RpcError m \<longrightarrow> msg = ''sendBundle failed: '' @ m)"
  using assms
  by (auto simp: submitAndConfirmBundle_def sendBundle_def split: http_reply.splits)

theorem failed_submission_skips_confirmation_witness:
  "snd (sendBundle [] TOKYO_BUNDLES (RpcError ''bundle too large''))
     = Inl ''sendBundle failed: bundle too large'' \<and>
   submitAndConfirmBundle [] 600000 0 (RpcError ''bundle too large'') 7 [landed_with_error_tick] =
     \<lparr>outcome = Some \<lparr>bundleId = [], success = False,
                       error = Some (Text ''sendBundle failed: bundle too large'')\<rparr>,
      finished = 7,
      effects = [Post (fst (sendBundle [] TOKYO_BUNDLES (RpcError ''bundle too large'')))]\<rparr>"
proof -
  have h: "snd (sendBundle [] TOKYO_BUNDLES (RpcError ''bundle too large''))
             = Inl ''sendBundle failed: bundle too large''"
    by (simp add: sendBundle_def)
  from failed_submission_skips_confirmation [OF h, of 600000 0 7 "[landed_with_error_tick]"] h
  show ?thesis by simp
qed

text \<open>
  C3 fails on the code. Called with a Tokyo endpoint, as \<^verbatim>\<open>submitAndConfirmBundle\<close>
  calls them, the three client functions post to their fixed Amsterdam URLs.
\<close>

theorem relay_requests_ignore_endpoint:
  "req_url (fst (sendBundle [] TOKYO_BUNDLES (RpcResult ''b1''))) = AMSTERDAM_BUNDLES \<and>
   AMSTERDAM_BUNDLES \<noteq> TOKYO_BUNDLES \<and>
   req_url (fst (getBundleStatuses [''b1''] TOKYO_GET_BUNDLE_STATUSES (RpcResult None)))
     = AMSTERDAM_GET_BUNDLE_STATUSES \<and>
   AMSTERDAM_GET_BUNDLE_STATUSES \<noteq> TOKYO_GET_BUNDLE_STATUSES \<and>
   req_url (fst (getBundleInflightStatuses [''b1''] TOKYO_GET_BUNDLE_STATUSES (RpcResult None)))
     = AMSTERDAM_GET_INFLIGHT_BUNDLE_STATUSES \<and>
   AMSTERDAM_GET_INFLIGHT_BUNDLE_STATUSES \<noteq> TOKYO_GET_BUNDLE_STATUSES"
  by (simp add: sendBundle_def getBundleStatuses_def getBundleInflightStatuses_def
      AMSTERDAM_BUNDLES_def TOKYO_BUNDLES_def AMSTERDAM_GET_BUNDLE_STATUSES_def
      TOKYO_GET_BUNDLE_STATUSES_def AMSTERDAM_GET_INFLIGHT_BUNDLE_STATUSES_def)

text \<open>
  C7, as amended. Each of the two status queries returns a list exactly when the relay's
  reply is a result: the list in \<^verbatim>\<open>result.value\<close> as it is, null slots included and
  without raising an error for them, or the empty list when the reply has no such
  value. So the list has one slot per handle when the relay's list has.
\<close>

theorem status_queries_pass_relay_value_through:
  "(snd (getBundleStatuses bundleIds endpoint reply) = Inr out \<longleftrightarrow>
      reply = RpcResult (Some out) \<or> (reply = RpcResult None \<and> out = [])) \<and>
   (snd (getBundleInflightStatuses bundleIds endpoint reply) = Inr out \<longleftrightarrow>
      reply = RpcResult (Some out) \<or> (reply = RpcResult None \<and> out = [])) \<and>
   (reply = RpcResult (Some slots) \<and> length slots = length bundleIds \<longrightarrow>
      snd (getBundleStatuses bundleIds endpoint reply) = Inr slots \<and>
      snd (getBundleInflightStatuses bundleIds endpoint reply) = Inr slots \<and>
      length slots = length bundleIds)"
proof (intro conjI)
  show "snd (getBundleStatuses bundleIds endpoint reply) = Inr out \<longleftrightarrow>
          reply = RpcResult (Some out) \<or> (reply = RpcResult None \<and> out = [])"
  proof (cases reply)
    case (RpcResult v)
    then show ?thesis
      by (cases v) (auto simp: getBundleStatuses_def)
  qed (simp_all add: getBundleStatuses_def)
  show "snd (getBundleInflightStatuses bundleIds endpoint reply) = Inr out \<longleftrightarrow>
          reply = RpcResult (Some out) \<or> (reply = RpcResult None \<and> out = [])"
  proof (cases reply)
    case (RpcResult v)
    then show ?thesis
      by (cases v) (auto simp: getBundleInflightStatuses_def)
  qed (simp_all add: getBundleInflightStatuses_def)
  show "reply = RpcResult (Some slots) \<and> length slots = length bundleIds \<longrightarrow>
          snd (getBundleStatuses bundleIds endpoint reply) = Inr slots \<and>
          snd (getBundleInflightStatuses bundleIds endpoint reply) = Inr slots \<and>
          length slots = length bundleIds"
    by (simp add: getBundleStatuses_def getBundleInflightStatuses_def)
qed

theorem status_queries_pass_relay_value_through_witness:
  "length [None :: bundle_status option] = length [''b1''] \<and>
   snd (getBundleStatuses [''b1''] TOKYO_GET_BUNDLE_STATUSES (RpcResult (Some [None])))
     = Inr [None] \<and>
   snd (getBundleInflightStatuses [''b1''] TOKYO_GET_BUNDLE_STATUSES (RpcResult (Some [None])))
     = Inr [None]"
  using status_queries_pass_relay_value_through
          [of "[''b1'']" TOKYO_GET_BUNDLE_STATUSES "RpcResult (Some [None])" "[None]" "[None]"]
  by simp

text \<open>
  C7 as stated fails when the relay's reply carries no value: for one handle the
  functions return the empty list, which has no slot for it.
\<close>

theorem missing_value_gives_no_slot:
  "snd (getBundleStatuses [''b1''] TOKYO_GET_BUNDLE_STATUSES (RpcResult None)) = Inr [] \<and>
   snd (getBundleInflightStatuses [''b1''] TOKYO_GET_BUNDLE_STATUSES (RpcResult None)) = Inr [] \<and>
   length ([] :: bundle_status option list) \<noteq> length [''b1'']"
  by (simp add: getBundleStatuses_def getBundleInflightStatuses_def)

section \<open>Properties of the transaction builders\<close>

text \<open>
  C8. A short-position build with a positive deposit amount returns a transaction exactly
  when the market is known, every library call it awaits answers, both amounts pass
  \<^verbatim>\<open>new BN\<close>, the oracle price is available and a blockhash is obtained. The result is
  then one transaction whose instruction list is: the two compute-budget instructions,
  then the account initialisation instructions when the user account does not exist yet,
  then the USDC deposit, then the perp order as the last instruction. The deposit is in
  the same transaction and directly ahead of the order.
\<close>

theorem deposit_precedes_short_order:
  assumes positive: "0 < depositAmount"
  shows "buildDriftShortTransaction k blockhash_reply userPublicKey driftClient marketName
           baseAssetAmount (Some depositAmount) subAccountId = Inr tx \<longleftrightarrow>
         (\<exists>marketIndex initIxs amount tokenAccount depositIx base price shortIx blockhash.
            map_of (MainnetPerpMarkets k) marketName = Some marketIndex \<and>
            (if has_user driftClient subAccountId then initIxs = []
             else getInitializeUserAccountIxs driftClient subAccountId = Inr initIxs) \<and>
            new_BN (times k depositAmount 1000000) = Inr amount \<and>
            getAssociatedTokenAddress k (TOKEN_ADDRESS_USDC k) (wallet_publicKey driftClient)
              = Inr tokenAccount \<and>
            getDepositInstruction driftClient amount (DRIFT_SPOT_MARKETS_USDC k) tokenAccount
              subAccountId False (has_user driftClient subAccountId \<or> initIxs \<noteq> [])
              = Inr depositIx \<and>
            new_BN baseAssetAmount = Inr base \<and>
            oraclePrice driftClient marketIndex = Some price \<and>
            getPlacePerpOrderIx driftClient
              \<lparr>op_orderType = MARKET, op_marketType = PERP, op_marketIndex = marketIndex,
               op_direction = SHORT, op_baseAssetAmount = base * BASE_PRECISION,
               op_price = bn_div (price * 95) 100\<rparr> subAccountId = Inr shortIx \<and>
            blockhash_reply = Inr blockhash \<and>
            tx = \<lparr>payerKey = userPublicKey, recentBlockhash = blockhash,
                  instructions =
                    [SetComputeUnitLimit 800000, SetComputeUnitPrice 1000] @ initIxs @
                    [depositIx, shortIx]\<rparr>)"
  using assms
  by (auto simp: buildDriftShortTransaction_def buildDriftShortInstructions_def
      buildDepositInstruction_def init_instructions_def getPerpMarketIndex_def Let_def
      split: sum.splits option.splits if_splits prod.splits)

theorem deposit_precedes_short_order_witness:
  "(0::real) < 50 \<and>
   buildDriftShortTransaction demo_consts (Inr ''hash'') ''me''
       (new_user_data\<lparr>wallet_publicKey := ''me''\<rparr>) ''JUP-PERP'' 10 (Some 50) 0
     = Inr demo_short_tx"
proof -
  have p: "(0::real) < 50" by simp
  have e: "buildDriftShortTransaction demo_consts (Inr ''hash'') ''me''
             (new_user_data\<lparr>wallet_publicKey := ''me''\<rparr>) ''JUP-PERP'' 10 (Some 50) 0
           = Inr demo_short_tx"
    by (simp add: buildDriftShortTransaction_def buildDriftShortInstructions_def
        buildDepositInstruction_def init_instructions_def getPerpMarketIndex_def
        new_BN_def demo_consts_def new_user_data_def demo_short_tx_def BASE_PRECISION_def
        bn_div_def)
  from deposit_precedes_short_order [OF p, of demo_consts "Inr ''hash''" "''me''"
          "new_user_data\<lparr>wallet_publicKey := ''me''\<rparr>" "''JUP-PERP''" 10 0 demo_short_tx]
       e p
  show ?thesis by simp
qed








end
